theory Spec2Isabelle
  imports Complex_Main
begin

section \<open>QgsDistanceArea: distance and area calculations on the ellipsoid\<close>

text \<open>
  A shallow embedding of \<^verbatim>\<open>src/core/qgsdistancearea.cpp\<close>. The C++ type
  \<^verbatim>\<open>double\<close> is modelled by \<^typ>\<open>real\<close>: the development is about the control
  flow and the algebra of the code, on finite coordinates. Rounding, overflow, NaN and
  the infinities of IEEE arithmetic are outside the model; where the code divides by a
  value that can be zero the text says so, since HOL's \<open>x / 0 = 0\<close> is not what the
  machine computes. The area on an ellipsoid, whose constants are quotients by the
  square of the semi-major axis, is embedded a second time over values that can be
  infinite or NaN. The C library's \<^verbatim>\<open>sin, cos, tan, atan, asin, sqrt, fabs\<close> are
  the functions of the same name on the reals, \<^verbatim>\<open>M_PI\<close> is \<^term>\<open>pi\<close>.
\<close>

subsection \<open>Points, units and the measuring object\<close>

text \<open>
  \<^verbatim>\<open>QgsPointXY\<close> is declared in \<^verbatim>\<open>qgspointxy.h\<close>: two doubles \<^verbatim>\<open>mX, mY\<close>
  read by \<^verbatim>\<open>x()\<close> and \<^verbatim>\<open>y()\<close>.
\<close>

record QgsPointXY =
  mX :: real
  mY :: real

definition QgsPoint :: "real \<Rightarrow> real \<Rightarrow> QgsPointXY" where
  "QgsPoint px py = \<lparr>mX = px, mY = py\<rparr>"

text \<open>
  Modelled from the spec: the default constructor of \<^verbatim>\<open>QgsPointXY\<close>
  (\<^verbatim>\<open>qgspointxy.h\<close> is not part of the sources) gives the point \<open>(0, 0)\<close>.
\<close>

definition QgsPointXY_default :: QgsPointXY where
  "QgsPointXY_default = QgsPoint 0 0"

text \<open>
  Modelled from the spec: \<^verbatim>\<open>QgsPointXY::distance\<close> (\<^verbatim>\<open>qgspointxy.h\<close>), the
  Cartesian distance between two points.
\<close>

definition distance :: "QgsPointXY \<Rightarrow> QgsPointXY \<Rightarrow> real" where
  "distance p q = sqrt ((mX p - mX q) * (mX p - mX q) + (mY p - mY q) * (mY p - mY q))"

text \<open>The distance units of \<^verbatim>\<open>QgsUnitTypes\<close> (\<^verbatim>\<open>qgsunittypes.h\<close>).\<close>

datatype DistanceUnit =
  DistanceMeters | DistanceKilometers | DistanceFeet | DistanceNauticalMiles
  | DistanceYards | DistanceMiles | DistanceDegrees | DistanceCentimeters
  | DistanceMillimeters | DistanceUnknownUnit

text \<open>
  Of the source CRS held by \<^verbatim>\<open>mCoordTransform\<close> the code reads two things:
  whether it is geographic and its map units.
\<close>

record QgsCoordinateReferenceSystem =
  isGeographic :: bool
  mapUnits :: DistanceUnit

text \<open>
  The object. The area constants \<^verbatim>\<open>m_QA ... m_TwoPI\<close> are plain members that only
  \<^verbatim>\<open>computeAreaInit\<close> writes.
\<close>

record QgsDistanceArea =
  mEllipsoid :: string
  mSemiMajor :: real
  mSemiMinor :: real
  mInvFlattening :: real
  sourceCrs :: QgsCoordinateReferenceSystem
  m_QA :: real
  m_QB :: real
  m_QC :: real
  m_QbarA :: real
  m_QbarB :: real
  m_QbarC :: real
  m_QbarD :: real
  m_AE :: real
  m_Qp :: real
  m_E :: real
  m_TwoPI :: real

definition GEO_NONE :: string where
  "GEO_NONE = ''NONE''"

definition DEG2RAD :: "real \<Rightarrow> real" where
  "DEG2RAD v = v * pi / 180"

definition RAD2DEG :: "real \<Rightarrow> real" where
  "RAD2DEG r = 180 * r / pi"

definition POW2 :: "real \<Rightarrow> real" where
  "POW2 v = v * v"

text \<open>
  \<^verbatim>\<open>atan2\<close> of the C library, on the reals: the angle of the point \<open>(x, y)\<close> in
  \<open>(-\<pi>, \<pi>]\<close>, and \<open>0\<close> at the origin.
\<close>

definition atan2 :: "real \<Rightarrow> real \<Rightarrow> real" where
  "atan2 v u =
     (if 0 < u then arctan (v / u)
      else if u < 0 then (if 0 \<le> v then arctan (v / u) + pi else arctan (v / u) - pi)
      else if 0 < v then pi / 2
      else if v < 0 then - (pi / 2)
      else 0)"

definition willUseEllipsoid :: "QgsDistanceArea \<Rightarrow> bool" where
  "willUseEllipsoid d = (mEllipsoid d \<noteq> GEO_NONE)"

text \<open>\<^verbatim>\<open>setSourceCrs\<close>: the transformation context is not modelled.\<close>

definition setSourceCrs :: "QgsCoordinateReferenceSystem \<Rightarrow> QgsDistanceArea \<Rightarrow> QgsDistanceArea" where
  "setSourceCrs srcCRS d = d\<lparr>sourceCrs := srcCRS\<rparr>"

subsection \<open>Ellipsoid and the constants of the area series\<close>

definition getQ :: "QgsDistanceArea \<Rightarrow> real \<Rightarrow> real" where
  "getQ d v =
     (let sinx = sin v; sinx2 = sinx * sinx
      in sinx * (1 + sinx2 * (m_QA d + sinx2 * (m_QB d + sinx2 * m_QC d))))"

definition getQbar :: "QgsDistanceArea \<Rightarrow> real \<Rightarrow> real" where
  "getQbar d v =
     (let cosx = cos v; cosx2 = cosx * cosx
      in cosx * (m_QbarA d + cosx2 * (m_QbarB d + cosx2 * (m_QbarC d + cosx2 * m_QbarD d))))"

text \<open>
  \<^verbatim>\<open>computeAreaInit\<close>. The eccentricity \<open>e2\<close> is a quotient by \<open>a2\<close>, the square of
  the semi-major axis: for an axis of \<open>0\<close> the machine gets NaN or an infinity where
  this definition has HOL's \<open>x / 0 = 0\<close>, so it stands for the code on objects with
  a semi-major axis other than \<open>0\<close>; \<open>computeAreaInit_double\<close> below covers both.
\<close>

definition computeAreaInit :: "QgsDistanceArea \<Rightarrow> QgsDistanceArea" where
  "computeAreaInit d =
     (if mEllipsoid d = GEO_NONE then d
      else
        let a2 = mSemiMajor d * mSemiMajor d;
            e2 = 1 - (mSemiMinor d * mSemiMinor d) / a2;
            e4 = e2 * e2;
            e6 = e4 * e2;
            d1 = d\<lparr>m_TwoPI := pi + pi,
                   m_AE := a2 * (1 - e2),
                   m_QA := (2 / 3) * e2,
                   m_QB := (3 / 5) * e4,
                   m_QC := (4 / 7) * e6,
                   m_QbarA := - 1 - (2 / 3) * e2 - (3 / 5) * e4 - (4 / 7) * e6,
                   m_QbarB := (2 / 9) * e2 + (2 / 5) * e4 + (4 / 7) * e6,
                   m_QbarC := - (3 / 25) * e4 - (12 / 35) * e6,
                   m_QbarD := (4 / 49) * e6\<rparr>;
            d2 = d1\<lparr>m_Qp := getQ d1 (pi / 2)\<rparr>;
            d3 = d2\<lparr>m_E := 4 * pi * m_Qp d2 * m_AE d2\<rparr>
        in if m_E d3 < 0 then d3\<lparr>m_E := - m_E d3\<rparr> else d3)"

text \<open>
  \<^verbatim>\<open>setEllipsoid( double semiMajor, double semiMinor )\<close>. The function
  \<^verbatim>\<open>qgsDoubleToString\<close> of \<^verbatim>\<open>qgis.h\<close> that prints the two parameters into the
  identifier is a parameter of the model. The result is the returned flag and the
  object after the call. For \<open>semiMajor = semiMinor\<close> the machine divides by zero for
  the inverse flattening.
\<close>

definition setEllipsoid ::
  "(real \<Rightarrow> string) \<Rightarrow> real \<Rightarrow> real \<Rightarrow> QgsDistanceArea \<Rightarrow> bool \<times> QgsDistanceArea" where
  "setEllipsoid qgsDoubleToString semiMajor semiMinor d =
     (let d1 = d\<lparr>mEllipsoid :=
                    ''PARAMETER:'' @ qgsDoubleToString semiMajor @ '':'' @ qgsDoubleToString semiMinor\<rparr>;
          d2 = d1\<lparr>mSemiMajor := semiMajor\<rparr>;
          d3 = d2\<lparr>mSemiMinor := semiMinor\<rparr>;
          d4 = d3\<lparr>mInvFlattening := mSemiMajor d3 / (mSemiMajor d3 - mSemiMinor d3)\<rparr>
      in (True, computeAreaInit d4))"

text \<open>
  The parameters of a named ellipsoid, as \<^verbatim>\<open>QgsEllipsoidUtils::ellipsoidParameters\<close>
  returns them. The catalogue itself is a parameter of \<open>setEllipsoidById\<close>; the
  destination CRS of the parameters plays no part in what follows and is left out.
\<close>

record EllipsoidParameters =
  valid :: bool
  useCustomParameters :: bool
  semiMajor :: real
  semiMinor :: real
  inverseFlattening :: real

definition setFromParams ::
  "(real \<Rightarrow> string) \<Rightarrow> EllipsoidParameters \<Rightarrow> QgsDistanceArea \<Rightarrow> QgsDistanceArea" where
  "setFromParams qgsDoubleToString params d =
     (if useCustomParameters params
      then snd (setEllipsoid qgsDoubleToString (semiMajor params) (semiMinor params) d)
      else computeAreaInit (d\<lparr>mSemiMajor := semiMajor params,
                               mSemiMinor := semiMinor params,
                               mInvFlattening := inverseFlattening params\<rparr>))"

text \<open>\<^verbatim>\<open>setEllipsoid( const QString &ellipsoid )\<close>.\<close>

definition setEllipsoidById ::
  "(string \<Rightarrow> EllipsoidParameters) \<Rightarrow> (real \<Rightarrow> string) \<Rightarrow> string \<Rightarrow> QgsDistanceArea
     \<Rightarrow> bool \<times> QgsDistanceArea" where
  "setEllipsoidById ellipsoidParameters qgsDoubleToString ellipsoid d =
     (if ellipsoid = GEO_NONE then (True, d\<lparr>mEllipsoid := GEO_NONE\<rparr>)
      else
        let params = ellipsoidParameters ellipsoid
        in if \<not> valid params then (False, d)
           else (True, setFromParams qgsDoubleToString params (d\<lparr>mEllipsoid := ellipsoid\<rparr>)))"

text \<open>
  The constructor sets the three ellipsoid parameters to \<open>-1\<close>, the source CRS to
  WGS 84 (geographic, in degrees) and the ellipsoid to \<^verbatim>\<open>GEO_NONE\<close>; it does not
  initialise the area constants, whose values \<open>u\<close> is standing for.
\<close>

definition constructed :: "QgsDistanceArea \<Rightarrow> QgsDistanceArea" where
  "constructed u =
     u\<lparr>mSemiMajor := - 1, mSemiMinor := - 1, mInvFlattening := - 1,
       sourceCrs := \<lparr>isGeographic = True, mapUnits = DistanceDegrees\<rparr>,
       mEllipsoid := GEO_NONE\<rparr>"

text \<open>An object whose uninitialised members all happen to be zero.\<close>

definition zeroed :: QgsDistanceArea where
  "zeroed =
     \<lparr>mEllipsoid = [], mSemiMajor = 0, mSemiMinor = 0, mInvFlattening = 0,
      sourceCrs = \<lparr>isGeographic = False, mapUnits = DistanceUnknownUnit\<rparr>,
      m_QA = 0, m_QB = 0, m_QC = 0, m_QbarA = 0, m_QbarB = 0, m_QbarC = 0, m_QbarD = 0,
      m_AE = 0, m_Qp = 0, m_E = 0, m_TwoPI = 0\<rparr>"

text \<open>
  The states an object can be in: as constructed, and after any sequence of calls of
  \<^verbatim>\<open>setSourceCrs\<close> and of the two setters of the ellipsoid.
\<close>

inductive reachable ::
  "(string \<Rightarrow> EllipsoidParameters) \<Rightarrow> (real \<Rightarrow> string) \<Rightarrow> QgsDistanceArea \<Rightarrow> bool"
  for cat :: "string \<Rightarrow> EllipsoidParameters" and dts :: "real \<Rightarrow> string" where
  reach_new: "reachable cat dts (constructed u)"
| reach_set: "reachable cat dts d \<Longrightarrow> reachable cat dts (snd (setEllipsoid dts a b d))"
| reach_id: "reachable cat dts d \<Longrightarrow> reachable cat dts (snd (setEllipsoidById cat dts e d))"
| reach_crs: "reachable cat dts d \<Longrightarrow> reachable cat dts (setSourceCrs srcCRS d)"

subsection \<open>Vincenty's direct formula: \<^verbatim>\<open>computeSpheroidProject\<close>\<close>

text \<open>
  The \<^verbatim>\<open>do ... while ( i < 999 && ... )\<close> loop. \<open>base\<close> is
  \<^verbatim>\<open>distance / ( b * A )\<close>; the result is the last \<^verbatim>\<open>sigma\<close> and
  \<^verbatim>\<open>two_sigma_m\<close>. The test divides by \<^verbatim>\<open>sigma\<close>.
\<close>

function spheroid_loop :: "real \<Rightarrow> real \<Rightarrow> real \<Rightarrow> int \<Rightarrow> real \<Rightarrow> real \<times> real" where
  "spheroid_loop B sigma1 base i sig =
     (let two_sigma_m = 2 * sigma1 + sig;
          delta_sigma = B * sin sig * (cos two_sigma_m + (B / 4) * (cos sig *
            (- 1 + 2 * POW2 (cos two_sigma_m) - (B / 6) * cos two_sigma_m *
              (- 3 + 4 * POW2 (sin sig)) * (- 3 + 4 * POW2 (cos two_sigma_m)))));
          last_sigma = sig;
          sig' = base + delta_sigma;
          i' = i + 1
      in if i' < 999 \<and> \<bar>(last_sigma - sig') / sig'\<bar> > 1 / 10 ^ 9
         then spheroid_loop B sigma1 base i' sig'
         else (sig', two_sigma_m))"
  by pat_completeness auto
termination
  by (relation "measure (\<lambda>(B, sigma1, base, i, sig). nat (999 - i))") auto

declare spheroid_loop.simps [simp del]

definition computeSpheroidProject ::
  "QgsDistanceArea \<Rightarrow> QgsPointXY \<Rightarrow> real \<Rightarrow> real \<Rightarrow> QgsPointXY" where
  "computeSpheroidProject d p1 dst azimuth0 =
     (let a = mSemiMajor d;
          b = mSemiMinor d;
          f = 1 / mInvFlattening d
      in if (a < 0 \<and> b < 0) \<or>
            (mX p1 < - 180 \<or> mX p1 > 180 \<or> mY p1 < - 85.05115 \<or> mY p1 > 85.05115)
         then QgsPoint 0 0
         else
           let radians_lat = DEG2RAD (mY p1);
               radians_long = DEG2RAD (mX p1);
               b2 = POW2 b;
               omf = 1 - f;
               tan_u1 = omf * tan radians_lat;
               u1 = arctan tan_u1;
               azimuth1 = (if azimuth0 < 0 then azimuth0 + pi * 2 else azimuth0);
               azimuth = (if azimuth1 > pi * 2 then azimuth1 - pi * 2 else azimuth1);
               sigma1 = atan2 tan_u1 (cos azimuth);
               sin_alpha = cos u1 * sin azimuth;
               alph = arcsin sin_alpha;
               cos_alphasq = 1 - POW2 sin_alpha;
               u2 = POW2 (cos alph) * (POW2 a - b2) / b2;
               A = 1 + (u2 / 16384) * (4096 + u2 * (- 768 + u2 * (320 - 175 * u2)));
               B = (u2 / 1024) * (256 + u2 * (- 128 + u2 * (74 - 47 * u2)));
               (sig, two_sigma_m) = spheroid_loop B sigma1 (dst / (b * A)) 0 (dst / (b * A));
               lat2 = atan2 (sin u1 * cos sig + cos u1 * sin sig * cos azimuth)
                        (omf * sqrt (POW2 sin_alpha +
                           POW2 (sin u1 * sin sig - cos u1 * cos sig * cos azimuth)));
               lam = atan2 (sin sig * sin azimuth)
                       (cos u1 * cos sig - sin u1 * sin sig * cos azimuth);
               CC = (f / 16) * cos_alphasq * (4 + f * (4 - 3 * cos_alphasq));
               omega = lam - (1 - CC) * f * sin_alpha * (sig + CC * sin sig *
                         (cos two_sigma_m + CC * cos sig * (- 1 + 2 * POW2 (cos two_sigma_m))));
               lambda2 = radians_long + omega
           in \<lparr>mX = RAD2DEG lambda2, mY = RAD2DEG lat2\<rparr>)"

subsection \<open>Vincenty's inverse formula: \<^verbatim>\<open>computeDistanceBearing\<close>\<close>

text \<open>
  Modelled from the spec: \<^verbatim>\<open>qgsDoubleNear\<close> of \<^verbatim>\<open>qgis.h\<close> (not part of the
  sources), which compares two doubles within a small epsilon, here four times the
  machine epsilon. The properties below hold whatever the epsilon is.
\<close>

definition qgsDoubleNear :: "real \<Rightarrow> real \<Rightarrow> bool" where
  "qgsDoubleNear a b =
     (let epsilon = 4 * (1 / 2 ^ 52); diff = a - b in - epsilon < diff \<and> diff \<le> epsilon)"

text \<open>The variables the \<^verbatim>\<open>while\<close> loop of the inverse formula updates.\<close>

record VincentyState =
  lambda :: real
  lambdaP :: real
  sinLambda :: real
  cosLambda :: real
  sinSigma :: real
  cosSigma :: real
  sigma :: real
  alpha :: real
  cosSqAlpha :: real
  cos2SigmaM :: real
  C :: real
  tu1 :: real
  tu2 :: real

text \<open>
  One run of the loop body. It divides by \<^verbatim>\<open>sinSigma\<close> and by
  \<^verbatim>\<open>cosSqAlpha\<close>; the latter is zero on the equator.
\<close>

definition vincenty_step ::
  "real \<Rightarrow> real \<Rightarrow> real \<Rightarrow> real \<Rightarrow> real \<Rightarrow> real \<Rightarrow> VincentyState \<Rightarrow> VincentyState" where
  "vincenty_step f L sinU1 cosU1 sinU2 cosU2 st =
     (let sinLambda' = sin (lambda st);
          cosLambda' = cos (lambda st);
          tu1' = cosU2 * sinLambda';
          tu2' = cosU1 * sinU2 - sinU1 * cosU2 * cosLambda';
          sinSigma' = sqrt (tu1' * tu1' + tu2' * tu2');
          cosSigma' = sinU1 * sinU2 + cosU1 * cosU2 * cosLambda';
          sigma' = atan2 sinSigma' cosSigma';
          alpha' = arcsin (cosU1 * cosU2 * sinLambda' / sinSigma');
          cosSqAlpha' = cos alpha' * cos alpha';
          cos2SigmaM' = cosSigma' - 2 * sinU1 * sinU2 / cosSqAlpha';
          C' = f / 16 * cosSqAlpha' * (4 + f * (4 - 3 * cosSqAlpha'));
          lambdaP' = lambda st;
          lambda' = L + (1 - C') * f * sin alpha' *
            (sigma' + C' * sinSigma' *
               (cos2SigmaM' + C' * cosSigma' * (- 1 + 2 * cos2SigmaM' * cos2SigmaM')))
      in \<lparr>lambda = lambda', lambdaP = lambdaP', sinLambda = sinLambda',
          cosLambda = cosLambda', sinSigma = sinSigma', cosSigma = cosSigma',
          sigma = sigma', alpha = alpha', cosSqAlpha = cosSqAlpha',
          cos2SigmaM = cos2SigmaM', C = C', tu1 = tu1', tu2 = tu2'\<rparr>)"

text \<open>The loop test \<^verbatim>\<open>std::fabs( lambda - lambdaP ) > 1e-12\<close>, negated.\<close>

definition converged :: "VincentyState \<Rightarrow> bool" where
  "converged st = (\<not> \<bar>lambda st - lambdaP st\<bar> > 1 / 10 ^ 12)"

text \<open>
  \<^verbatim>\<open>while ( std::fabs( lambda - lambdaP ) > 1e-12 && --iterLimit > 0 ) body\<close>:
  the counter is decremented only when the first test holds. The result is the counter
  and the variables when the loop is left.
\<close>

function vincenty_loop ::
  "(VincentyState \<Rightarrow> VincentyState) \<Rightarrow> int \<Rightarrow> VincentyState \<Rightarrow> int \<times> VincentyState" where
  "vincenty_loop body iterLimit st =
     (if \<bar>lambda st - lambdaP st\<bar> > 1 / 10 ^ 12
      then (if iterLimit - 1 > 0 then vincenty_loop body (iterLimit - 1) (body st)
            else (iterLimit - 1, st))
      else (iterLimit, st))"
  by pat_completeness auto
termination
  by (relation "measure (\<lambda>(body, iterLimit, st). nat iterLimit)") auto

declare vincenty_loop.simps [simp del]

text \<open>The constants of the loop, computed from the flattening and the two points.\<close>

definition vincenty_body :: "QgsDistanceArea \<Rightarrow> QgsPointXY \<Rightarrow> QgsPointXY \<Rightarrow> VincentyState \<Rightarrow> VincentyState" where
  "vincenty_body d p1 p2 =
     (let f = 1 / mInvFlattening d;
          p1_lat = DEG2RAD (mY p1); p1_lon = DEG2RAD (mX p1);
          p2_lat = DEG2RAD (mY p2); p2_lon = DEG2RAD (mX p2);
          L = p2_lon - p1_lon;
          U1 = arctan ((1 - f) * tan p1_lat);
          U2 = arctan ((1 - f) * tan p2_lat)
      in vincenty_step f L (sin U1) (cos U1) (sin U2) (cos U2))"

text \<open>The variables before the loop: \<^verbatim>\<open>lambda = L\<close>, \<^verbatim>\<open>lambdaP = 2 * M_PI\<close>, the rest zero.\<close>

definition vincenty_init :: "QgsPointXY \<Rightarrow> QgsPointXY \<Rightarrow> VincentyState" where
  "vincenty_init p1 p2 =
     \<lparr>lambda = DEG2RAD (mX p2) - DEG2RAD (mX p1), lambdaP = 2 * pi, sinLambda = 0,
      cosLambda = 0, sinSigma = 0, cosSigma = 0, sigma = 0, alpha = 0, cosSqAlpha = 0,
      cos2SigmaM = 0, C = 0, tu1 = 0, tu2 = 0\<rparr>"

text \<open>
  The function returns the distance; the second component is what it writes to
  \<^verbatim>\<open>*course1\<close> and \<^verbatim>\<open>*course2\<close> when the caller passes them, and \<open>None\<close>
  on the two early returns, which write nothing.
\<close>

definition computeDistanceBearing ::
  "QgsDistanceArea \<Rightarrow> QgsPointXY \<Rightarrow> QgsPointXY \<Rightarrow> real \<times> (real \<times> real) option" where
  "computeDistanceBearing d p1 p2 =
     (if qgsDoubleNear (mX p1) (mX p2) \<and> qgsDoubleNear (mY p1) (mY p2) then (0, None)
      else
        let a = mSemiMajor d;
            b = mSemiMinor d;
            f = 1 / mInvFlattening d;
            U1 = arctan ((1 - f) * tan (DEG2RAD (mY p1)));
            U2 = arctan ((1 - f) * tan (DEG2RAD (mY p2)));
            (iterLimit, st) = vincenty_loop (vincenty_body d p1 p2) 20 (vincenty_init p1 p2)
        in if iterLimit = 0 then (- 1, None)
           else
             let uSq = cosSqAlpha st * (a * a - b * b) / (b * b);
                 A = 1 + uSq / 16384 * (4096 + uSq * (- 768 + uSq * (320 - 175 * uSq)));
                 B = uSq / 1024 * (256 + uSq * (- 128 + uSq * (74 - 47 * uSq)));
                 deltaSigma = B * sinSigma st * (cos2SigmaM st + B / 4 *
                   (cosSigma st * (- 1 + 2 * cos2SigmaM st * cos2SigmaM st) -
                    B / 6 * cos2SigmaM st * (- 3 + 4 * sinSigma st * sinSigma st) *
                      (- 3 + 4 * cos2SigmaM st * cos2SigmaM st)));
                 s = b * A * (sigma st - deltaSigma);
                 course1 = atan2 (tu1 st) (tu2 st);
                 course2 = atan2 (cos U1 * sinLambda st)
                             (- sin U1 * cos U2 + cos U1 * sin U2 * cosLambda st) + pi
             in (s, Some (course1, course2)))"

subsection \<open>Lengths: \<^verbatim>\<open>measureLine\<close> and \<^verbatim>\<open>measureLineProjected\<close>\<close>

text \<open>
  \<^verbatim>\<open>mCoordTransform.transform\<close> belongs to the transformation library and is a
  parameter \<open>transform\<close> of the model; it answers \<open>None\<close> where the library throws
  \<^verbatim>\<open>QgsCsException\<close>. Every function that can call it returns, next to its value, the
  list of the points it passed to \<open>transform\<close>, in the order of the calls.
\<close>

text \<open>\<^verbatim>\<open>measureLine( const QgsPointXY &p1, const QgsPointXY &p2 )\<close>.\<close>

definition measureLine2 ::
  "(QgsPointXY \<Rightarrow> QgsPointXY option) \<Rightarrow> QgsDistanceArea \<Rightarrow> QgsPointXY \<Rightarrow> QgsPointXY
     \<Rightarrow> real \<times> QgsPointXY list" where
  "measureLine2 transform d p1 p2 =
     (if willUseEllipsoid d
      then (case transform p1 of
              None \<Rightarrow> (0, [p1])
            | Some pp1 \<Rightarrow>
                (case transform p2 of
                   None \<Rightarrow> (0, [p1, p2])
                 | Some pp2 \<Rightarrow> (fst (computeDistanceBearing d pp1 pp2), [p1, p2])))
      else (distance p2 p1, []))"

text \<open>
  The \<^verbatim>\<open>for\<close> loop of \<^verbatim>\<open>measureLine( const QVector<QgsPointXY> &points )\<close> over
  the remaining points; \<open>None\<close> as the value is the exception leaving the loop.
\<close>

fun measureLine_loop ::
  "(QgsPointXY \<Rightarrow> QgsPointXY option) \<Rightarrow> QgsDistanceArea \<Rightarrow> QgsPointXY \<Rightarrow> real
     \<Rightarrow> QgsPointXY list \<Rightarrow> QgsPointXY list \<Rightarrow> real option \<times> QgsPointXY list" where
  "measureLine_loop transform d p1 tot [] calls = (Some tot, calls)"
| "measureLine_loop transform d p1 tot (i # rest) calls =
     (if willUseEllipsoid d
      then (case transform i of
              None \<Rightarrow> (None, calls @ [i])
            | Some p2 \<Rightarrow>
                measureLine_loop transform d p2
                  (tot + fst (computeDistanceBearing d p1 p2)) rest (calls @ [i]))
      else (let p2 = i;
                (len, calls2) = measureLine2 transform d p1 p2
            in measureLine_loop transform d p2 (tot + len) rest (calls @ calls2)))"

definition measureLine ::
  "(QgsPointXY \<Rightarrow> QgsPointXY option) \<Rightarrow> QgsDistanceArea \<Rightarrow> QgsPointXY list
     \<Rightarrow> real \<times> QgsPointXY list" where
  "measureLine transform d points =
     (if length points < 2 then (0, [])
      else if willUseEllipsoid d
      then (case transform (points ! 0) of
              None \<Rightarrow> (0, [points ! 0])
            | Some p1 \<Rightarrow>
                (case measureLine_loop transform d p1 0 points [points ! 0] of
                   (None, calls) \<Rightarrow> (0, calls)
                 | (Some tot, calls) \<Rightarrow> (tot, calls)))
      else (case measureLine_loop transform d (points ! 0) 0 points [] of
              (None, calls) \<Rightarrow> (0, calls)
            | (Some tot, calls) \<Rightarrow> (tot, calls)))"

text \<open>
  \<^verbatim>\<open>measureLineProjected\<close>. \<^verbatim>\<open>QgsUnitTypes::fromUnitToUnitFactor\<close> and
  \<^verbatim>\<open>QgsPointXY::project\<close> are parameters. The result is the returned length and the
  point \<^verbatim>\<open>p2\<close> that is written to \<^verbatim>\<open>*projectedPoint\<close> when the caller passes one. In
  the Cartesian branch the statements are in the order of the source: \<^verbatim>\<open>result\<close> is
  computed from \<^verbatim>\<open>p2\<close> before \<^verbatim>\<open>p2\<close> is assigned.
\<close>

definition measureLineProjected ::
  "(DistanceUnit \<Rightarrow> DistanceUnit \<Rightarrow> real) \<Rightarrow> (QgsPointXY \<Rightarrow> real \<Rightarrow> real \<Rightarrow> QgsPointXY)
     \<Rightarrow> QgsDistanceArea \<Rightarrow> QgsPointXY \<Rightarrow> real \<Rightarrow> real \<Rightarrow> real \<times> QgsPointXY" where
  "measureLineProjected fromUnitToUnitFactor project d p1 dst azimuth =
     (let result0 = (0 :: real);
          p2_0 = QgsPointXY_default
      in if isGeographic (sourceCrs d) \<and> willUseEllipsoid d
         then (let p2 = computeSpheroidProject d p1 dst azimuth;
                   result = distance p1 p2
               in (result, p2))
         else (let result1 = dst
               in if mapUnits (sourceCrs d) \<noteq> DistanceMeters
                  then (let dst' = dst * fromUnitToUnitFactor DistanceMeters (mapUnits (sourceCrs d));
                            result = distance p1 p2_0;
                            p2 = project p1 dst' azimuth
                        in (result, p2))
                  else (let p2 = project p1 dst azimuth in (result1, p2))))"

subsection \<open>Areas: \<^verbatim>\<open>computePolygonArea\<close>\<close>

text \<open>
  \<^verbatim>\<open>computePolygonFlatArea\<close>: the \<^verbatim>\<open>for\<close> loop over \<open>i = 0, ..., size - 1\<close> is a
  fold over the indices.
\<close>

definition computePolygonFlatArea :: "QgsPointXY list \<Rightarrow> real" where
  "computePolygonFlatArea points =
     (let size = length points;
          area = fold (\<lambda>i area. area + mX (points ! i) * mY (points ! ((i + 1) mod size))
                                      - mX (points ! ((i + 1) mod size)) * mY (points ! i))
                   [0 ..< size] 0;
          area' = area / 2
      in \<bar>area'\<bar>)"

text \<open>
  The two inner loops \<^verbatim>\<open>while ( x1 - x2 > M_PI ) x2 += m_TwoPI\<close> and
  \<^verbatim>\<open>while ( x2 - x1 > M_PI ) x1 += m_TwoPI\<close> are one function: it adds \<open>twoPI\<close> to
  \<open>lo\<close> while \<open>hi - lo > \<pi>\<close>. The loop does not end when the member \<^verbatim>\<open>m_TwoPI\<close> is
  not positive, so the value is an option: \<open>None\<close> for a run that never returns.
\<close>

partial_function (option) unwrap_loop :: "real \<Rightarrow> real \<Rightarrow> real \<Rightarrow> real option" where
  "unwrap_loop twoPI hi lo =
     (if hi - lo > pi then unwrap_loop twoPI hi (lo + twoPI) else Some lo)"

text \<open>The unwrap step of an edge: the pair \<open>(x1, x2)\<close> after it.\<close>

definition unwrap :: "real \<Rightarrow> real \<Rightarrow> real \<Rightarrow> (real \<times> real) option" where
  "unwrap twoPI x1 x2 =
     (if x1 > x2
      then (case unwrap_loop twoPI x1 x2 of None \<Rightarrow> None | Some x2' \<Rightarrow> Some (x1, x2'))
      else if x2 > x1
      then (case unwrap_loop twoPI x2 x1 of None \<Rightarrow> None | Some x1' \<Rightarrow> Some (x1', x2))
      else Some (x1, x2))"

text \<open>
  The loop over the vertices, by recursion over the points still to visit. The arguments
  \<open>x2, y2, Qbar2, area\<close> are the variables of the same name when the iteration
  starts; \<open>x2\<close> carries over what the unwrap step added to it.
\<close>

fun area_loop ::
  "QgsDistanceArea \<Rightarrow> QgsPointXY list \<Rightarrow> real \<Rightarrow> real \<Rightarrow> real \<Rightarrow> real \<Rightarrow> real option" where
  "area_loop d [] x2 y2 Qbar2 area = Some area"
| "area_loop d (p # ps) x2 y2 Qbar2 area =
     (let x1 = x2;
          y1 = y2;
          Qbar1 = Qbar2;
          x2' = DEG2RAD (mX p);
          y2' = DEG2RAD (mY p);
          Qbar2' = getQbar d y2'
      in case unwrap (m_TwoPI d) x1 x2' of
           None \<Rightarrow> None
         | Some (x1u, x2u) \<Rightarrow>
             (let dx = x2u - x1u;
                  dy = y2' - y1;
                  area' = (if \<bar>dy\<bar> > 1 / 10 ^ 6
                           then area + dx * (m_Qp d - (Qbar2' - Qbar1) / dy)
                           else area + dx * (m_Qp d - getQ d ((y1 + y2') / 2)))
              in area_loop d ps x2u y2' Qbar2' area'))"

text \<open>The accumulated sum over all edges, starting from the last vertex.\<close>

definition edge_sum :: "QgsDistanceArea \<Rightarrow> QgsPointXY list \<Rightarrow> real option" where
  "edge_sum d points =
     (let n = length points;
          x2 = DEG2RAD (mX (points ! (n - 1)));
          y2 = DEG2RAD (mY (points ! (n - 1)));
          Qbar2 = getQbar d y2
      in area_loop d points x2 y2 Qbar2 0)"

definition computePolygonArea :: "QgsDistanceArea \<Rightarrow> QgsPointXY list \<Rightarrow> real option" where
  "computePolygonArea d points =
     (if points = [] then Some 0
      else if \<not> willUseEllipsoid d then Some (computePolygonFlatArea points)
      else (case edge_sum d points of
              None \<Rightarrow> None
            | Some area \<Rightarrow>
                (let area1 = area * m_AE d;
                     area2 = (if area1 < 0 then - area1 else area1);
                     area3 = (if area2 > m_E d then m_E d else area2);
                     area4 = (if area3 > m_E d / 2 then m_E d - area3 else area3)
                 in Some area4)))"

subsection \<open>The area in IEEE values\<close>

text \<open>
  \<^verbatim>\<open>computeAreaInit\<close> divides by the square of the semi-major axis, and
  \<^verbatim>\<open>setEllipsoid\<close> accepts an axis of \<open>0\<close>. What the machine then computes is not a
  number, so the path from the two axes to the area is embedded a second time, over
  the values of a \<^verbatim>\<open>double\<close>: a finite number, one of the two infinities, or NaN.
  Finite results are exact (rounding and overflow stay outside the model) and the sign
  of a zero is not kept: a zero divisor counts as \<open>+0\<close>, which is what the only divisor
  that can be zero here, the square \<open>a * a\<close>, is. The operations are those of IEEE 754:
  NaN is absorbing, \<open>\<infinity> - \<infinity>\<close>, \<open>0 * \<infinity>\<close>, \<open>0 / 0\<close> and \<open>\<infinity> / \<infinity>\<close> are NaN, a non-zero
  number divided by zero is an infinity, and every comparison with NaN is false.
\<close>

datatype double = Fin real | PInf | MInf | NaN

fun d_neg :: "double \<Rightarrow> double" where
  "d_neg (Fin v) = Fin (- v)"
| "d_neg PInf = MInf"
| "d_neg MInf = PInf"
| "d_neg NaN = NaN"

fun d_add :: "double \<Rightarrow> double \<Rightarrow> double" where
  "d_add NaN w = NaN"
| "d_add v NaN = NaN"
| "d_add (Fin v) (Fin w) = Fin (v + w)"
| "d_add PInf MInf = NaN"
| "d_add MInf PInf = NaN"
| "d_add PInf w = PInf"
| "d_add v PInf = PInf"
| "d_add MInf w = MInf"
| "d_add v MInf = MInf"

fun d_sign :: "double \<Rightarrow> real" where
  "d_sign (Fin v) = sgn v"
| "d_sign PInf = 1"
| "d_sign MInf = - 1"
| "d_sign NaN = 0"

fun d_mul :: "double \<Rightarrow> double \<Rightarrow> double" where
  "d_mul NaN w = NaN"
| "d_mul v NaN = NaN"
| "d_mul (Fin v) (Fin w) = Fin (v * w)"
| "d_mul v w =
     (if d_sign v * d_sign w = 0 then NaN else if 0 < d_sign v * d_sign w then PInf else MInf)"

fun d_div :: "double \<Rightarrow> double \<Rightarrow> double" where
  "d_div NaN w = NaN"
| "d_div v NaN = NaN"
| "d_div (Fin v) (Fin w) =
     (if w \<noteq> 0 then Fin (v / w) else if v = 0 then NaN else if 0 < v then PInf else MInf)"
| "d_div (Fin v) w = Fin 0"
| "d_div v (Fin w) = (if (0 < d_sign v) = (0 \<le> w) then PInf else MInf)"
| "d_div v w = NaN"

fun d_less :: "double \<Rightarrow> double \<Rightarrow> bool" where
  "d_less NaN w = False"
| "d_less v NaN = False"
| "d_less (Fin v) (Fin w) = (v < w)"
| "d_less MInf MInf = False"
| "d_less MInf w = True"
| "d_less v MInf = False"
| "d_less PInf w = False"
| "d_less v PInf = True"

instantiation double :: "{plus, minus, uminus, times, inverse, ord}"
begin

definition plus_double :: "double \<Rightarrow> double \<Rightarrow> double" where
  "plus_double v w = d_add v w"

definition uminus_double :: "double \<Rightarrow> double" where
  "uminus_double v = d_neg v"

definition minus_double :: "double \<Rightarrow> double \<Rightarrow> double" where
  "minus_double v w = d_add v (d_neg w)"

definition times_double :: "double \<Rightarrow> double \<Rightarrow> double" where
  "times_double v w = d_mul v w"

definition divide_double :: "double \<Rightarrow> double \<Rightarrow> double" where
  "divide_double v w = d_div v w"

definition inverse_double :: "double \<Rightarrow> double" where
  "inverse_double v = d_div (Fin 1) v"

definition less_double :: "double \<Rightarrow> double \<Rightarrow> bool" where
  "less_double v w = d_less v w"

definition less_eq_double :: "double \<Rightarrow> double \<Rightarrow> bool" where
  "less_eq_double v w = (d_less v w \<or> (v = w \<and> v \<noteq> NaN))"

instance ..

end











subsection \<open>The antimeridian: \<^verbatim>\<open>latitudeGeodesicCrossesAntimeridian\<close>\<close>

text \<open>
  The geodesic routines \<^verbatim>\<open>geod_inverseline\<close> and \<^verbatim>\<open>geod_position\<close> come from
  \<^verbatim>\<open>geodesic.h\<close>, a library outside the sources; they are parameters: \<open>inverseline\<close>
  (already given the ellipsoid) builds a line from \<open>lat1 lon1 lat2 lon2\<close>, \<open>s13\<close> reads
  its length and \<open>position\<close> gives the latitude and longitude at a distance along it.
  The state of the \<^verbatim>\<open>while\<close> loop is \<open>(p1x, p1y, p2x, p2y, lat, lon, line,
  intersectionDist, iterations)\<close>; the result is the latitude and the distance.
\<close>

function antimeridian_loop ::
  "(real \<Rightarrow> real \<Rightarrow> real \<Rightarrow> real \<Rightarrow> 'l) \<Rightarrow> ('l \<Rightarrow> real) \<Rightarrow> ('l \<Rightarrow> real \<Rightarrow> real \<times> real)
     \<Rightarrow> real \<times> real \<times> real \<times> real \<times> real \<times> real \<times> 'l \<times> real \<times> int \<Rightarrow> real \<times> real" where
  "antimeridian_loop inverseline s13 position
       (p1x, p1y, p2x, p2y, lat, lon, line, intersectionDist, iterations) =
     (if \<bar>lon - 180\<bar> > 1 / 10 ^ 8 \<and> iterations < 100
      then
        (let narrowed = (iterations > 0 \<and> \<bar>p2x - p1x\<bar> > 5);
             p1x' = (if narrowed \<and> lon < 180 then lon else p1x);
             p1y' = (if narrowed \<and> lon < 180 then lat else p1y);
             p2x' = (if narrowed \<and> \<not> lon < 180 then lon else p2x);
             p2y' = (if narrowed \<and> \<not> lon < 180 then lat else p2y);
             line' = (if narrowed then inverseline p1y' p1x' p2y' p2x' else line);
             intersectionDist' =
               (if narrowed then s13 line' * 0.5
                else intersectionDist * ((180 - p1x) / (lon - p1x)));
             lat' = fst (position line' intersectionDist');
             lon0 = snd (position line' intersectionDist');
             lon' = (if lon0 < 0 then lon0 + 360 else lon0)
         in antimeridian_loop inverseline s13 position
              (p1x', p1y', p2x', p2y', lat', lon', line', intersectionDist', iterations + 1))
      else (lat, intersectionDist))"
  by pat_completeness auto
termination
  by (relation "measure (\<lambda>(inverseline, s13, position, p1x, p1y, p2x, p2y, lat, lon, line,
         intersectionDist, iterations). nat (100 - iterations))") auto

declare antimeridian_loop.simps [simp del]

text \<open>
  The first statements, \<^verbatim>\<open>if ( p1.x() < -120 ) p1.setX( p1.x() + 360 )\<close> and the
  same for \<^verbatim>\<open>p2\<close>.
\<close>

definition shifted :: "QgsPointXY \<Rightarrow> QgsPointXY" where
  "shifted p = (if mX p < - 120 then p\<lparr>mX := mX p + 360\<rparr> else p)"

text \<open>
  The result is the returned latitude and the value left in \<^verbatim>\<open>fractionAlongLine\<close>.
  The first branch divides by \<open>p2x - p1x\<close>, the second by the length of the line.
\<close>

definition latitudeGeodesicCrossesAntimeridian ::
  "(real \<times> real \<Rightarrow> real \<Rightarrow> real \<Rightarrow> real \<Rightarrow> real \<Rightarrow> 'l) \<Rightarrow> ('l \<Rightarrow> real)
     \<Rightarrow> ('l \<Rightarrow> real \<Rightarrow> real \<times> real) \<Rightarrow> QgsDistanceArea \<Rightarrow> QgsPointXY \<Rightarrow> QgsPointXY
     \<Rightarrow> real \<times> real" where
  "latitudeGeodesicCrossesAntimeridian geod_inverseline s13 geod_position d pp1 pp2 =
     (let p1 = shifted pp1;
          p2 = shifted pp2;
          p1x = (if mX p1 < 180 then mX p1 else mX p2);
          p1y = (if mX p1 < 180 then mY p1 else mY p2);
          p2x = (if mX p1 < 180 then mX p2 else mX p1);
          p2y = (if mX p1 < 180 then mY p2 else mY p1);
          lat = p2y;
          lon = p2x
      in if mEllipsoid d = GEO_NONE
         then (let fractionAlongLine = (180 - p1x) / (p2x - p1x);
                   fractionAlongLine' =
                     (if mX p1 \<ge> 180 then 1 - fractionAlongLine else fractionAlongLine)
               in (p1y + (180 - p1x) / (p2x - p1x) * (p2y - p1y), fractionAlongLine'))
         else (let geod = (mSemiMajor d, 1 / mInvFlattening d);
                   line = geod_inverseline geod p1y p1x p2y p2x;
                   totalDist = s13 line;
                   (lat', intersectionDist) =
                      antimeridian_loop (geod_inverseline geod) s13 geod_position
                        (p1x, p1y, p2x, p2y, lat, lon, line, s13 line, 0);
                   fractionAlongLine = intersectionDist / totalDist;
                   fractionAlongLine' =
                     (if mX p1 \<ge> 180 then 1 - fractionAlongLine else fractionAlongLine)
               in (lat', fractionAlongLine')))"

text \<open>
  The test by which the two callers, \<^verbatim>\<open>splitGeometryAtAntimeridian\<close> and
  \<^verbatim>\<open>geodesicLine\<close>, decide that the segment from \<open>(prevLon, _)\<close> to \<open>(lon, _)\<close>
  crosses the antimeridian before they ask for the latitude of the crossing.
\<close>

definition callers_crossing_test :: "real \<Rightarrow> real \<Rightarrow> bool" where
  "callers_crossing_test prevLon lon =
     ((prevLon < - 120 \<and> lon > 120) \<or> (prevLon > 120 \<and> lon < - 120))"

subsection \<open>Objects and points of the examples\<close>

text \<open>
  A printing function for the parameters, a catalogue that knows one ellipsoid, the unit
  sphere, and three objects: the WGS 84 parameters and a prolate ellipsoid set by
  \<^verbatim>\<open>setEllipsoid( a, b )\<close>, the unit sphere set by its identifier.
\<close>

definition print_nothing :: "real \<Rightarrow> string" where
  "print_nothing v = []"

definition sphere_catalogue :: "string \<Rightarrow> EllipsoidParameters" where
  "sphere_catalogue e =
     \<lparr>valid = (e = ''SPHERE''), useCustomParameters = False, semiMajor = 1, semiMinor = 1,
      inverseFlattening = 0\<rparr>"

definition unit_sphere :: QgsDistanceArea where
  "unit_sphere =
     snd (setEllipsoidById sphere_catalogue print_nothing ''SPHERE'' (constructed zeroed))"

definition wgs84 :: QgsDistanceArea where
  "wgs84 = snd (setEllipsoid print_nothing 6378137 6356752.314245 (constructed zeroed))"

definition prolate :: QgsDistanceArea where
  "prolate = snd (setEllipsoid print_nothing 1 4 (constructed zeroed))"

text \<open>
  Two points between which, on the prolate ellipsoid, the iteration of the inverse
  formula alternates between \<open>\<lambda> = \<pi>/2\<close> and \<open>\<lambda> = 0\<close>: the first at longitude 0 and
  latitude \<open>arctan (\<surd>2 / 2)\<close> (about 35.26 degrees), the second at longitude 90 on the
  equator.
\<close>

definition cycle_p1 :: QgsPointXY where
  "cycle_p1 = QgsPoint 0 (RAD2DEG (arctan (sqrt 2 / 2)))"

definition cycle_p2 :: QgsPointXY where
  "cycle_p2 = QgsPoint 90 0"

definition cycling :: "VincentyState \<Rightarrow> bool" where
  "cycling st =
     (lambda st = pi / 2 \<and> (lambdaP st = 2 * pi \<or> lambdaP st = 0)
      \<or> lambda st = 0 \<and> lambdaP st = pi / 2)"

text \<open>A geodesic library that is never consulted: the line carries no data.\<close>

definition no_inverseline :: "real \<times> real \<Rightarrow> real \<Rightarrow> real \<Rightarrow> real \<Rightarrow> real \<Rightarrow> unit" where
  "no_inverseline g lat1 lon1 lat2 lon2 = ()"

definition no_s13 :: "unit \<Rightarrow> real" where
  "no_s13 l = 0"

definition no_position :: "unit \<Rightarrow> real \<Rightarrow> real \<times> real" where
  "no_position l s = (0, 0)"





text \<open>
  Answers in which the longitude does not grow evenly with the distance, as on a line
  that passes near a pole: along a line of length \<open>4\<close> the longitude has gained
  \<open>bend s\<close> at the distance \<open>s\<close>, half a degree over the first half of the line and three
  and a half over the second, \<open>4\<close> at the end of the line and \<open>s\<close> beyond it.
\<close>

definition bend :: "real \<Rightarrow> real" where
  "bend s = (if s \<le> 2 then s / 4 else if s \<le> 4 then 1 / 2 + (s - 2) * (7 / 4) else s)"

definition bent_inverseline :: "real \<times> real \<Rightarrow> real \<Rightarrow> real \<Rightarrow> real \<Rightarrow> real \<Rightarrow> real" where
  "bent_inverseline geod lat1 lon1 lat2 lon2 = lon1"

definition bent_s13 :: "real \<Rightarrow> real" where
  "bent_s13 line = 4"

definition bent_position :: "real \<Rightarrow> real \<Rightarrow> real \<times> real" where
  "bent_position line s = (0, line + bend s)"

section \<open>Properties\<close>

subsection \<open>Auxiliary facts\<close>

lemma computeAreaInit_keeps:
  "mEllipsoid (computeAreaInit d) = mEllipsoid d"
  "mSemiMajor (computeAreaInit d) = mSemiMajor d"
  "mSemiMinor (computeAreaInit d) = mSemiMinor d"
  "mInvFlattening (computeAreaInit d) = mInvFlattening d"
  "sourceCrs (computeAreaInit d) = sourceCrs d"
  by (simp_all add: computeAreaInit_def Let_def)

lemma computeAreaInit_consts:
  assumes "mEllipsoid d \<noteq> GEO_NONE"
  shows "m_TwoPI (computeAreaInit d) = pi + pi" and "0 \<le> m_E (computeAreaInit d)"
  using assms by (simp_all add: computeAreaInit_def Let_def)

lemma setEllipsoid_consts:
  "m_TwoPI (snd (setEllipsoid dts a b d)) = pi + pi" "0 \<le> m_E (snd (setEllipsoid dts a b d))"
  by (simp_all add: setEllipsoid_def Let_def computeAreaInit_consts GEO_NONE_def)

text \<open>
  The invariant of the object: whenever an ellipsoid is set, \<^verbatim>\<open>computeAreaInit\<close> has
  run since, so \<^verbatim>\<open>m_TwoPI\<close> is \<open>2\<pi>\<close> and \<^verbatim>\<open>m_E\<close> is not negative (on the
  machine \<^verbatim>\<open>m_E\<close> is NaN for a semi-major axis of \<open>0\<close>: see
  \<open>area_constants_zero_axis\<close>).
\<close>

lemma reachable_consts:
  assumes "reachable cat dts d" and "willUseEllipsoid d"
  shows "m_TwoPI d = pi + pi \<and> 0 \<le> m_E d"
  using assms
proof (induction rule: reachable.induct)
  case (reach_new u)
  then show ?case
    by (simp add: willUseEllipsoid_def constructed_def)
next
  case (reach_set d a b)
  show ?case
    by (simp add: setEllipsoid_consts)
next
  case (reach_id d e)
  show ?case
  proof (cases "e = GEO_NONE")
    case True
    then show ?thesis
      using reach_id.prems by (simp add: setEllipsoidById_def willUseEllipsoid_def)
  next
    case ne: False
    show ?thesis
    proof (cases "valid (cat e)")
      case False
      then show ?thesis
        using reach_id ne by (simp add: setEllipsoidById_def Let_def)
    next
      case True
      then show ?thesis
        using ne
        by (simp add: setEllipsoidById_def Let_def setFromParams_def setEllipsoid_consts
            computeAreaInit_consts)
    qed
  qed
next
  case (reach_crs d srcCRS)
  then show ?case
    by (simp add: setSourceCrs_def willUseEllipsoid_def)
qed

lemma fold_add_sum:
  "fold (\<lambda>i (a::real). a + g i) [0 ..< n] a0 = a0 + (\<Sum>i<n. g i)"
  by (induction n) (simp_all add: algebra_simps)

lemma ratio_unit:
  fixes a b :: real
  assumes "0 \<le> a" and "a \<le> b" and "0 < b"
  shows "0 \<le> a / b" and "a / b \<le> 1"
  using assms by simp_all

lemma sqrt9: "sqrt 9 = 3"
  by (rule real_sqrt_unique) simp_all

paragraph \<open>The unwrap loop returns\<close>

text \<open>
  For a positive step the loop ends: the number of rounds still to run,
  \<open>\<lceil>(hi - lo - \<pi>) / t\<rceil>\<close>, decreases. On return \<open>hi - lo \<le> \<pi>\<close>, and if the loop ran at
  all, the last addition left \<open>hi - lo > \<pi> - t\<close>.
\<close>

lemma unwrap_loop_returns:
  assumes "0 < t"
  shows "\<exists>r. unwrap_loop t hi lo = Some r \<and> hi - r \<le> pi
           \<and> (if hi - lo > pi then pi - t < hi - r else r = lo)"
proof (induction "nat \<lceil>(hi - lo - pi) / t\<rceil>" arbitrary: lo rule: less_induct)
  case less
  show ?case
  proof (cases "hi - lo > pi")
    case False
    then show ?thesis
      by (subst unwrap_loop.simps) simp
  next
    case True
    have eq: "(hi - (lo + t) - pi) / t = (hi - lo - pi) / t - 1"
      using assms by (simp add: field_simps)
    have pos: "0 < (hi - lo - pi) / t"
      using True assms by simp
    then have "0 < \<lceil>(hi - lo - pi) / t\<rceil>"
      by simp
    then have "nat \<lceil>(hi - (lo + t) - pi) / t\<rceil> < nat \<lceil>(hi - lo - pi) / t\<rceil>"
      unfolding eq by simp
    from less [OF this] obtain r where
      r: "unwrap_loop t hi (lo + t) = Some r" "hi - r \<le> pi"
         "if hi - (lo + t) > pi then pi - t < hi - r else r = lo + t"
      by blast
    have "pi - t < hi - r"
      using r(3) True assms by (auto split: if_splits)
    moreover have "unwrap_loop t hi lo = Some r"
      using True r(1) by (subst unwrap_loop.simps) simp
    ultimately show ?thesis
      using True r(2) by simp
  qed
qed

lemma unwrap_twoPI:
  "\<exists>a b. unwrap (pi + pi) x1 x2 = Some (a, b) \<and> - pi \<le> b - a \<and> b - a \<le> pi"
proof -
  have t: "0 < pi + pi" by simp
  consider "x1 > x2" | "x2 > x1" | "x1 = x2" by linarith
  then show ?thesis
  proof cases
    case 1
    from unwrap_loop_returns [OF t, of x1 x2] obtain r where
      "unwrap_loop (pi + pi) x1 x2 = Some r" "x1 - r \<le> pi"
      "if x1 - x2 > pi then pi - (pi + pi) < x1 - r else r = x2"
      by blast
    then show ?thesis using 1
      by (auto simp: unwrap_def split: if_splits)
  next
    case 2
    from unwrap_loop_returns [OF t, of x2 x1] obtain r where
      "unwrap_loop (pi + pi) x2 x1 = Some r" "x2 - r \<le> pi"
      "if x2 - x1 > pi then pi - (pi + pi) < x2 - r else r = x1"
      by blast
    then show ?thesis using 2
      by (auto simp: unwrap_def split: if_splits)
  next
    case 3
    then show ?thesis
      by (simp add: unwrap_def)
  qed
qed

lemma unwrap_total:
  assumes "0 < t"
  shows "\<exists>a b. unwrap t x1 x2 = Some (a, b)"
proof -
  from unwrap_loop_returns [OF assms, of x1 x2] obtain r where "unwrap_loop t x1 x2 = Some r"
    by blast
  moreover from unwrap_loop_returns [OF assms, of x2 x1] obtain r' where
    "unwrap_loop t x2 x1 = Some r'"
    by blast
  ultimately show ?thesis
    by (simp add: unwrap_def)
qed

lemma unwrap_near:
  assumes "\<bar>x2 - x1\<bar> \<le> pi"
  shows "unwrap t x1 x2 = Some (x1, x2)"
proof -
  have "unwrap_loop t x1 x2 = Some x2" if "x1 > x2"
    using assms that by (subst unwrap_loop.simps) simp
  moreover have "unwrap_loop t x2 x1 = Some x1" if "x2 > x1"
    using assms that by (subst unwrap_loop.simps) simp
  ultimately show ?thesis
    by (simp add: unwrap_def)
qed

lemma unwrap_once_x2:
  assumes "x1 - x2 > pi" and "x1 - (x2 + t) \<le> pi"
  shows "unwrap t x1 x2 = Some (x1, x2 + t)"
proof -
  have "unwrap_loop t x1 (x2 + t) = Some (x2 + t)"
    using assms(2) by (subst unwrap_loop.simps) simp
  then have "unwrap_loop t x1 x2 = Some (x2 + t)"
    using assms(1) by (subst unwrap_loop.simps) simp
  moreover have "x1 > x2"
    using assms(1) pi_gt_zero by linarith
  ultimately show ?thesis
    by (simp add: unwrap_def)
qed

lemma unwrap_once_x1:
  assumes "x2 - x1 > pi" and "x2 - (x1 + t) \<le> pi"
  shows "unwrap t x1 x2 = Some (x1 + t, x2)"
proof -
  have "unwrap_loop t x2 (x1 + t) = Some (x1 + t)"
    using assms(2) by (subst unwrap_loop.simps) simp
  then have "unwrap_loop t x2 x1 = Some (x1 + t)"
    using assms(1) by (subst unwrap_loop.simps) simp
  moreover have "x2 > x1" "\<not> x1 > x2"
    using assms(1) pi_gt_zero by linarith+
  ultimately show ?thesis
    by (simp add: unwrap_def)
qed

paragraph \<open>The ellipsoidal area\<close>

lemma area_loop_total:
  assumes "0 < m_TwoPI d"
  shows "\<exists>s. area_loop d ps x2 y2 q a = Some s"
proof (induction ps arbitrary: x2 y2 q a)
  case Nil
  show ?case by simp
next
  case (Cons p ps)
  from unwrap_total [OF assms, of x2 "DEG2RAD (mX p)"] obtain u v where
    "unwrap (m_TwoPI d) x2 (DEG2RAD (mX p)) = Some (u, v)"
    by blast
  then show ?case
    using Cons.IH by (simp add: Let_def)
qed

lemma computePolygonArea_ellipsoidal:
  assumes "willUseEllipsoid d" and "m_TwoPI d = pi + pi" and "0 \<le> m_E d"
  shows "\<exists>s. edge_sum d points = Some s \<and>
           computePolygonArea d points =
             Some (let area = \<bar>s * m_AE d\<bar>;
                       clamped = (if area > m_E d then m_E d else area)
                   in if clamped > m_E d / 2 then m_E d - clamped else clamped)"
proof -
  have "0 < m_TwoPI d"
    using assms(2) by simp
  from area_loop_total [OF this] obtain s where s: "edge_sum d points = Some s"
    unfolding edge_sum_def Let_def by blast
  show ?thesis
  proof (cases "points = []")
    case True
    then have "s = 0"
      using s by (simp add: edge_sum_def)
    then show ?thesis
      using True s assms(3) by (simp add: computePolygonArea_def)
  next
    case False
    then show ?thesis
      using s assms(1) by (simp add: computePolygonArea_def Let_def abs_if)
  qed
qed

paragraph \<open>The objects of the examples\<close>

lemma wgs84_reachable: "reachable cat print_nothing wgs84"
  unfolding wgs84_def by (rule reach_set) (rule reach_new)

lemma wgs84_ellipsoid: "willUseEllipsoid wgs84"
  by (simp add: willUseEllipsoid_def wgs84_def setEllipsoid_def Let_def computeAreaInit_keeps
      GEO_NONE_def)

lemma unit_sphere_reachable: "reachable sphere_catalogue print_nothing unit_sphere"
  unfolding unit_sphere_def by (rule reach_id) (rule reach_new)

lemma unit_sphere_fields:
  "mEllipsoid unit_sphere = ''SPHERE''"
  "m_TwoPI unit_sphere = pi + pi"
  "m_AE unit_sphere = 1"
  "m_Qp unit_sphere = 1"
  "m_E unit_sphere = 4 * pi"
  "m_QA unit_sphere = 0" "m_QB unit_sphere = 0" "m_QC unit_sphere = 0"
  "m_QbarA unit_sphere = - 1" "m_QbarB unit_sphere = 0" "m_QbarC unit_sphere = 0"
  "m_QbarD unit_sphere = 0"
  by (simp_all add: unit_sphere_def setEllipsoidById_def sphere_catalogue_def GEO_NONE_def
      setFromParams_def computeAreaInit_def constructed_def zeroed_def getQ_def Let_def)

lemma unit_sphere_ellipsoid: "willUseEllipsoid unit_sphere"
  by (simp add: willUseEllipsoid_def unit_sphere_fields GEO_NONE_def)

lemma unit_sphere_Q: "getQ unit_sphere v = sin v" "getQbar unit_sphere v = - cos v"
  by (simp_all add: getQ_def getQbar_def unit_sphere_fields Let_def)

text \<open>
  On the unit sphere, the quadrilateral along the parallel of 45 degrees south and the
  triangle \<open>(0,0), (90,0), (0,90)\<close>: their edge sums.
\<close>

lemma south_edge_sum:
  "edge_sum unit_sphere
     [QgsPoint 0 (- 45), QgsPoint 90 (- 45), QgsPoint 180 (- 45), QgsPoint (- 90) (- 45)]
    = Some (2 * pi + pi * sqrt 2)"
proof -
  have a: "unwrap (2 * pi) (- (pi / 2)) 0 = Some (- (pi / 2), 0)"
    by (rule unwrap_near) (use pi_gt_zero in linarith)
  have b: "unwrap (2 * pi) 0 (pi / 2) = Some (0, pi / 2)"
    by (rule unwrap_near) (use pi_gt_zero in linarith)
  have c: "unwrap (2 * pi) (pi / 2) pi = Some (pi / 2, pi)"
    by (rule unwrap_near) (use pi_gt_zero in linarith)
  have d: "unwrap (2 * pi) pi (- (pi / 2)) = Some (pi, - (pi / 2) + 2 * pi)"
    by (rule unwrap_once_x2) (use pi_gt_zero in linarith)+
  have s: "sin (pi / 4) = sqrt 2 / 2"
    by (rule sin_45)
  show ?thesis
    by (simp add: edge_sum_def Let_def QgsPoint_def DEG2RAD_def unit_sphere_fields
        unit_sphere_Q a b c d s)
      (simp add: algebra_simps)
qed


paragraph \<open>The loop of the inverse formula\<close>

text \<open>
  What a run of the loop from the counter \<open>k > 0\<close> does: it applies the body \<open>n < k\<close>
  times, none of the states before the last is converged, and either the last state is
  converged and the counter has gone down by \<open>n\<close>, or \<open>n = k - 1\<close> and the counter is
  \<open>0\<close>.
\<close>

lemma vincenty_loop_run:
  assumes "0 < k"
  shows "\<exists>n. int n < k \<and> snd (vincenty_loop body k st) = (body ^^ n) st
           \<and> (\<forall>j<n. \<not> converged ((body ^^ j) st))
           \<and> (if converged ((body ^^ n) st) then fst (vincenty_loop body k st) = k - int n
               else int n = k - 1 \<and> fst (vincenty_loop body k st) = 0)"
  using assms
proof (induction body k st rule: vincenty_loop.induct)
  case (1 body iterLimit st)
  show ?case
  proof (cases "converged st")
    case True
    then have "vincenty_loop body iterLimit st = (iterLimit, st)"
      by (subst vincenty_loop.simps) (simp add: converged_def)
    then show ?thesis
      using True by (intro exI [of _ 0]) (simp add: "1.prems")
  next
    case nc: False
    then have gt: "\<bar>lambda st - lambdaP st\<bar> > 1 / 10 ^ 12"
      by (simp add: converged_def)
    show ?thesis
    proof (cases "iterLimit - 1 > 0")
      case False
      then have "vincenty_loop body iterLimit st = (iterLimit - 1, st)"
        using gt by (subst vincenty_loop.simps) simp
      moreover have "iterLimit = 1"
        using False "1.prems" by simp
      ultimately show ?thesis
        using nc by (intro exI [of _ 0]) simp
    next
      case True
      have eq: "vincenty_loop body iterLimit st = vincenty_loop body (iterLimit - 1) (body st)"
        using gt True by (subst vincenty_loop.simps) simp
      from "1.IH" [OF gt True True] obtain n where
        n: "int n < iterLimit - 1"
           "snd (vincenty_loop body (iterLimit - 1) (body st)) = (body ^^ n) (body st)"
           "\<forall>j<n. \<not> converged ((body ^^ j) (body st))"
           "if converged ((body ^^ n) (body st))
            then fst (vincenty_loop body (iterLimit - 1) (body st)) = iterLimit - 1 - int n
            else int n = iterLimit - 1 - 1
                 \<and> fst (vincenty_loop body (iterLimit - 1) (body st)) = 0"
        by blast
      have sw: "(body ^^ j) (body st) = (body ^^ Suc j) st" for j
        by (simp add: funpow_swap1)
      have "\<forall>j<Suc n. \<not> converged ((body ^^ j) st)"
      proof (intro allI impI)
        fix j assume "j < Suc n"
        show "\<not> converged ((body ^^ j) st)"
        proof (cases j)
          case 0
          then show ?thesis using nc by simp
        next
          case (Suc i)
          then have "i < n" using \<open>j < Suc n\<close> by simp
          then show ?thesis using n(3) Suc sw by metis
        qed
      qed
      moreover have "int (Suc n) < iterLimit"
        using n(1) by simp
      moreover have "snd (vincenty_loop body iterLimit st) = (body ^^ Suc n) st"
        using eq n(2) sw by simp
      moreover have "if converged ((body ^^ Suc n) st)
            then fst (vincenty_loop body iterLimit st) = iterLimit - int (Suc n)
            else int (Suc n) = iterLimit - 1 \<and> fst (vincenty_loop body iterLimit st) = 0"
        using n(4) unfolding eq sw by (auto split: if_splits)
      ultimately show ?thesis
        by blast
    qed
  qed
qed

text \<open>From the counter 20 the body runs at most 19 times.\<close>

lemma vincenty_loop_at_most_19:
  "\<exists>n\<le>19. snd (vincenty_loop body 20 st) = (body ^^ n) st"
proof -
  from vincenty_loop_run [of 20 body st] obtain n where
    "int n < 20" "snd (vincenty_loop body 20 st) = (body ^^ n) st"
    by auto
  then show ?thesis
    by (intro exI [of _ n]) simp
qed

text \<open>
  Along a meridian, from \<open>(0, 0)\<close> to \<open>(0, 45)\<close> on WGS 84, the first update gives
  \<open>\<lambda> = \<lambda>\<^sub>p\<^sub>r\<^sub>e\<^sub>v = 0\<close> and the loop is left with the counter at 19.
\<close>

lemma meridian_converges:
  "fst (vincenty_loop (vincenty_body wgs84 (QgsPoint 0 0) (QgsPoint 0 45)) 20
          (vincenty_init (QgsPoint 0 0) (QgsPoint 0 45))) = 19"
proof -
  let ?b = "vincenty_body wgs84 (QgsPoint 0 0) (QgsPoint 0 45)"
  let ?i = "vincenty_init (QgsPoint 0 0) (QgsPoint 0 45)"
  have i: "lambda ?i = 0" "lambdaP ?i = 2 * pi"
    by (simp_all add: vincenty_init_def QgsPoint_def DEG2RAD_def)
  have s: "lambda (?b ?i) = 0" "lambdaP (?b ?i) = 0"
    unfolding vincenty_body_def vincenty_step_def Let_def i
    by (simp_all add: QgsPoint_def DEG2RAD_def)
  have "vincenty_loop ?b 20 ?i = vincenty_loop ?b 19 (?b ?i)"
    using pi_ge_two by (subst vincenty_loop.simps) (simp add: i)
  also have "\<dots> = (19, ?b ?i)"
    by (subst vincenty_loop.simps) (simp add: s)
  finally show ?thesis
    by simp
qed

lemma computeDistanceBearing_limit:
  assumes "\<not> (qgsDoubleNear (mX p1) (mX p2) \<and> qgsDoubleNear (mY p1) (mY p2))"
    and "fst (vincenty_loop (vincenty_body d p1 p2) 20 (vincenty_init p1 p2)) = 0"
  shows "computeDistanceBearing d p1 p2 = (- 1, None)"
  using assms unfolding computeDistanceBearing_def
  by (simp only: Let_def split_beta if_False if_True simp_thms)

text \<open>The two points of the example: the body of their loop, and its two-cycle.\<close>

lemma cycle_body:
  "vincenty_body prolate cycle_p1 cycle_p2
     = vincenty_step (- 3) (pi / 2) (2 * sqrt 2 / 3) (1 / 3) 0 1"
proof -
  have r: "DEG2RAD (RAD2DEG v) = v" for v
    by (simp add: DEG2RAD_def RAD2DEG_def)
  have t: "4 * tan (arctan (sqrt 2 / 2)) = 2 * sqrt 2"
    by (simp add: tan_arctan)
  have q: "sqrt (1 + (2 * sqrt 2)\<^sup>2) = 3"
    by (simp add: power_mult_distrib sqrt9)
  have s: "sin (arctan (2 * sqrt 2)) = 2 * sqrt 2 / 3"
    by (simp only: sin_arctan q)
  have c: "cos (arctan (2 * sqrt 2)) = 1 / 3"
    by (simp only: cos_arctan q)
  have f: "1 / mInvFlattening prolate = - 3"
    by (simp add: prolate_def setEllipsoid_def Let_def computeAreaInit_keeps)
  have l: "DEG2RAD 90 = pi / 2"
    by (simp add: DEG2RAD_def)
  have z: "DEG2RAD 0 = 0"
    by (simp add: DEG2RAD_def)
  show ?thesis
    unfolding vincenty_body_def Let_def f cycle_p1_def cycle_p2_def QgsPoint_def
    by (simp add: r t s c l z)
qed

lemma cycle_step_from_L:
  assumes "lambda st = pi / 2"
  shows "lambda (vincenty_step (- 3) (pi / 2) (2 * sqrt 2 / 3) (1 / 3) 0 1 st) = 0"
    and "lambdaP (vincenty_step (- 3) (pi / 2) (2 * sqrt 2 / 3) (1 / 3) 0 1 st) = pi / 2"
proof -
  have a: "atan2 1 0 = pi / 2"
    by (simp add: atan2_def)
  have c: "cos (arcsin (1 / 3)) * cos (arcsin (1 / 3)) = 8 / 9"
    by (simp add: cos_arcsin power2_eq_square)
  have s: "sin (arcsin (1 / 3)) = 1 / 3"
    by simp
  show "lambda (vincenty_step (- 3) (pi / 2) (2 * sqrt 2 / 3) (1 / 3) 0 1 st) = 0"
    unfolding vincenty_step_def Let_def assms
    by (simp add: a c s)
  show "lambdaP (vincenty_step (- 3) (pi / 2) (2 * sqrt 2 / 3) (1 / 3) 0 1 st) = pi / 2"
    unfolding vincenty_step_def Let_def assms by simp
qed

lemma cycle_step_from_0:
  assumes "lambda st = 0"
  shows "lambda (vincenty_step (- 3) (pi / 2) (2 * sqrt 2 / 3) (1 / 3) 0 1 st) = pi / 2"
    and "lambdaP (vincenty_step (- 3) (pi / 2) (2 * sqrt 2 / 3) (1 / 3) 0 1 st) = 0"
  unfolding vincenty_step_def Let_def assms by simp_all

lemma cycling_never_converged:
  assumes "cycling st"
  shows "\<not> converged st"
proof -
  have "(1::real) / 10 ^ 12 < 1"
    by simp
  then show ?thesis
    using assms pi_ge_two unfolding cycling_def converged_def
    by (auto simp: abs_if)
qed

lemma cycling_all:
  "cycling (((vincenty_body prolate cycle_p1 cycle_p2) ^^ j) (vincenty_init cycle_p1 cycle_p2))"
proof (induction j)
  case 0
  show ?case
    by (simp add: cycling_def vincenty_init_def cycle_p1_def cycle_p2_def QgsPoint_def
        DEG2RAD_def)
next
  case (Suc j)
  then show ?case
    unfolding cycle_body funpow.simps o_apply cycling_def
    using cycle_step_from_L cycle_step_from_0 by metis
qed

paragraph \<open>The arithmetic of doubles\<close>

lemma Fin_arith [simp]:
  "Fin v + Fin w = Fin (v + w)"
  "Fin v - Fin w = Fin (v - w)"
  "- Fin v = Fin (- v)"
  "Fin v * Fin w = Fin (v * w)"
  "w \<noteq> 0 \<Longrightarrow> Fin v / Fin w = Fin (v / w)"
  "(Fin v < Fin w) = (v < w)"
  "(Fin v \<le> Fin w) = (v \<le> w)"
  by (auto simp: plus_double_def minus_double_def uminus_double_def times_double_def
      divide_double_def less_double_def less_eq_double_def)

lemma NaN_arith [simp]:
  "NaN + w = NaN" "v + NaN = NaN" "NaN - w = NaN" "v - NaN = NaN" "- NaN = NaN"
  "NaN * w = NaN" "v * NaN = NaN" "NaN / w = NaN" "v / NaN = NaN"
  "\<not> NaN < w" "\<not> v < NaN" "\<not> NaN \<le> w" "\<not> v \<le> NaN"
  "Fin 0 / Fin 0 = NaN"
  by (cases v; cases w; simp add: plus_double_def minus_double_def uminus_double_def times_double_def
      divide_double_def less_double_def less_eq_double_def)+

paragraph \<open>The two embeddings of the area\<close>












paragraph \<open>The crossing of the antimeridian\<close>





text \<open>
  The search of the ellipsoidal branch multiplies the distance by
  \<open>(180 - p1x) / (lon - p1x)\<close> until the longitude is within \<open>10\<^sup>-\<^sup>8\<close> of \<open>180\<close> or a
  hundred rounds are over; nothing keeps the distance below the length of the line.
  From \<open>(178, 0)\<close> to \<open>(-178, 0)\<close> with the answers \<open>bent_position\<close> the distance
  alternates between \<open>2\<close> and \<open>8\<close>, the longitude between \<open>178.5\<close> and \<open>186\<close>; the
  hundredth round leaves the distance \<open>8\<close> on a line of length \<open>4\<close>, the fraction \<open>2\<close>.
\<close>

lemma bent_cycle:
  assumes "k + n = 100" and "1 \<le> k"
  shows "antimeridian_loop (bent_inverseline g) bent_s13 bent_position
           (178, 0, 182, 0, 0, if even k then 186 else 357 / 2, 178,
            if even k then 8 else 2, int k) = (0, 8)"
  using assms
proof (induction n arbitrary: k)
  case 0
  then have "k = 100"
    by simp
  then show ?case
    by (subst antimeridian_loop.simps) simp
next
  case (Suc n)
  have k: "int k < 100" "0 < int k"
    using Suc.prems by simp_all
  have i: "int k + 1 = int (Suc k)"
    by simp
  show ?case
  proof (cases "even k")
    case True
    with Suc.IH [of "Suc k"] Suc.prems
    have "antimeridian_loop (bent_inverseline g) bent_s13 bent_position
            (178, 0, 182, 0, 0, 357 / 2, 178, 2, int (Suc k)) = (0, 8)"
      by simp
    then show ?thesis
      using True k
      by (subst antimeridian_loop.simps) (simp add: Let_def bent_position_def bend_def i)
  next
    case False
    with Suc.IH [of "Suc k"] Suc.prems
    have "antimeridian_loop (bent_inverseline g) bent_s13 bent_position
            (178, 0, 182, 0, 0, 186, 178, 8, int (Suc k)) = (0, 8)"
      by simp
    then show ?thesis
      using False k
      by (subst antimeridian_loop.simps) (simp add: Let_def bent_position_def bend_def i)
  qed
qed

lemma bent_search_fraction:
  "mEllipsoid unit_sphere \<noteq> GEO_NONE
   \<and> latitudeGeodesicCrossesAntimeridian bent_inverseline bent_s13 bent_position
        unit_sphere (QgsPoint 178 0) (QgsPoint (- 178) 0) = (0, 2)"
proof -
  have u: "mEllipsoid unit_sphere \<noteq> GEO_NONE"
    by (simp add: unit_sphere_fields GEO_NONE_def)
  have s: "mX (shifted (QgsPoint 178 0)) = 178" "mX (shifted (QgsPoint (- 178) 0)) = 182"
    "mY (shifted (QgsPoint 178 0)) = 0" "mY (shifted (QgsPoint (- 178) 0)) = 0"
    by (simp_all add: shifted_def QgsPoint_def)
  have "antimeridian_loop (bent_inverseline g) bent_s13 bent_position
          (178, 0, 182, 0, 0, 357 / 2, 178, 2, 1) = (0, 8)" for g
    using bent_cycle [of 1 99 g] by simp
  then have "antimeridian_loop (bent_inverseline g) bent_s13 bent_position
          (178, 0, 182, 0, 0, 182, 178, 4, 0) = (0, 8)" for g
    by (subst antimeridian_loop.simps) (simp add: Let_def bent_position_def bend_def)
  then show ?thesis
    using u
    by (simp add: latitudeGeodesicCrossesAntimeridian_def Let_def s bent_inverseline_def
        bent_s13_def)
qed

text \<open>
  The test of the callers does not look at the range of the longitudes: \<open>170\<close> and
  \<open>-185\<close> pass it, both are below \<open>180\<close> after the shift and the fraction is
  \<open>(180 - 170) / (175 - 170) = 2\<close>.
\<close>

lemma callers_test_out_of_range:
  "callers_crossing_test 170 (- 185)
   \<and> latitudeGeodesicCrossesAntimeridian no_inverseline no_s13 no_position
        (constructed zeroed) (QgsPoint 170 0) (QgsPoint (- 185) 0) = (0, 2)"
  by (simp add: callers_crossing_test_def latitudeGeodesicCrossesAntimeridian_def Let_def
      shifted_def QgsPoint_def constructed_def)

subsection \<open>C1: the setter with two parameters\<close>

text \<open>
  Claim C1 says that \<^verbatim>\<open>setEllipsoid( semiMajor, semiMinor )\<close> returns false when one
  of the parameters is not positive. The code has no such test: for the pair
  \<open>(-1, -1)\<close> the call on a new object returns true.
\<close>

theorem setEllipsoid_nonpositive_counterexample:
  "fst (setEllipsoid print_nothing (- 1) (- 1) (constructed zeroed)) = True
   \<and> (- 1 :: real) \<le> 0"
  by (simp add: setEllipsoid_def Let_def)

text \<open>
  C1, amended: for every pair of parameters, positive or not, the setter stores both and
  returns true.
\<close>

theorem setEllipsoid_always_true:
  "fst (setEllipsoid qgsDoubleToString a b d) = True
   \<and> mSemiMajor (snd (setEllipsoid qgsDoubleToString a b d)) = a
   \<and> mSemiMinor (snd (setEllipsoid qgsDoubleToString a b d)) = b"
  by (simp add: setEllipsoid_def Let_def computeAreaInit_keeps)

subsection \<open>C2: the iteration limit of the inverse formula\<close>

text \<open>
  C2: for two points that do not coincide (for coinciding points the function returns
  \<open>0\<close> before the loop), \<^verbatim>\<open>computeDistanceBearing\<close> runs the body of its loop \<open>n\<close>
  times for some \<open>n \<le> 20\<close>; it stops as soon as \<open>|\<lambda> - \<lambda>\<^sub>p\<^sub>r\<^sub>e\<^sub>v| \<le> 1e-12\<close>, that is, none of
  the states before the \<open>n\<close>-th satisfies the test; and when the state it stops in does not
  satisfy the test either, the limit has ended the loop and the function returns \<open>-1\<close>.
\<close>

theorem computeDistanceBearing_iterations:
  assumes "\<not> (qgsDoubleNear (mX p1) (mX p2) \<and> qgsDoubleNear (mY p1) (mY p2))"
  shows "\<exists>n\<le>20.
           snd (vincenty_loop (vincenty_body d p1 p2) 20 (vincenty_init p1 p2))
             = ((vincenty_body d p1 p2) ^^ n) (vincenty_init p1 p2)
           \<and> (\<forall>j<n. \<not> converged (((vincenty_body d p1 p2) ^^ j) (vincenty_init p1 p2)))
           \<and> (\<not> converged (((vincenty_body d p1 p2) ^^ n) (vincenty_init p1 p2))
                \<longrightarrow> fst (computeDistanceBearing d p1 p2) = - 1)"
proof -
  from vincenty_loop_run [of 20 "vincenty_body d p1 p2" "vincenty_init p1 p2"]
  obtain n where
    n: "int n < 20"
       "snd (vincenty_loop (vincenty_body d p1 p2) 20 (vincenty_init p1 p2))
          = ((vincenty_body d p1 p2) ^^ n) (vincenty_init p1 p2)"
       "\<forall>j<n. \<not> converged (((vincenty_body d p1 p2) ^^ j) (vincenty_init p1 p2))"
       "if converged (((vincenty_body d p1 p2) ^^ n) (vincenty_init p1 p2))
        then fst (vincenty_loop (vincenty_body d p1 p2) 20 (vincenty_init p1 p2)) = 20 - int n
        else int n = 20 - 1
             \<and> fst (vincenty_loop (vincenty_body d p1 p2) 20 (vincenty_init p1 p2)) = 0"
    by auto
  have "fst (computeDistanceBearing d p1 p2) = - 1"
    if "\<not> converged (((vincenty_body d p1 p2) ^^ n) (vincenty_init p1 p2))"
    using n(4) that computeDistanceBearing_limit [OF assms] by simp
  moreover have "n \<le> 20"
    using n(1) by simp
  ultimately show ?thesis
    using n(2,3) by blast
qed

text \<open>
  On the prolate ellipsoid \<open>a = 1, b = 4\<close> the iteration between the two points of the
  example never meets the test, and the function returns \<open>-1\<close>.
\<close>

theorem computeDistanceBearing_iterations_witness:
  "\<not> (qgsDoubleNear (mX cycle_p1) (mX cycle_p2) \<and> qgsDoubleNear (mY cycle_p1) (mY cycle_p2))
   \<and> fst (computeDistanceBearing prolate cycle_p1 cycle_p2) = - 1"
proof -
  have far: "\<not> (qgsDoubleNear (mX cycle_p1) (mX cycle_p2)
                \<and> qgsDoubleNear (mY cycle_p1) (mY cycle_p2))"
    by (simp add: qgsDoubleNear_def cycle_p1_def cycle_p2_def QgsPoint_def Let_def)
  from computeDistanceBearing_iterations [OF far, of prolate] obtain n where
    "\<not> converged (((vincenty_body prolate cycle_p1 cycle_p2) ^^ n)
                    (vincenty_init cycle_p1 cycle_p2))
       \<longrightarrow> fst (computeDistanceBearing prolate cycle_p1 cycle_p2) = - 1"
    by blast
  then show ?thesis
    using far cycling_never_converged [OF cycling_all] by blast
qed

subsection \<open>C3: the domain guard of the direct formula\<close>

text \<open>
  C3: for a point \<open>p1\<close> with \<open>|p1.x| > 180\<close> or \<open>|p1.y| > 85.05115\<close>, and every
  distance and azimuth, \<^verbatim>\<open>computeSpheroidProject\<close> returns the point \<open>(0, 0)\<close>; the
  result type has no error value.
\<close>

theorem computeSpheroidProject_guard:
  assumes "\<bar>mX p1\<bar> > 180 \<or> \<bar>mY p1\<bar> > 85.05115"
  shows "computeSpheroidProject d p1 dst azimuth = QgsPoint 0 0"
proof -
  have "(mSemiMajor d < 0 \<and> mSemiMinor d < 0) \<or>
        (mX p1 < - 180 \<or> mX p1 > 180 \<or> mY p1 < - 85.05115 \<or> mY p1 > 85.05115)"
    using assms by linarith
  then show ?thesis
    unfolding computeSpheroidProject_def by (simp only: Let_def if_True)
qed

theorem computeSpheroidProject_guard_witness:
  "\<bar>mX (QgsPoint 181 0)\<bar> > 180 \<and>
   computeSpheroidProject wgs84 (QgsPoint 181 0) 1000 0 = QgsPoint 0 0"
  using computeSpheroidProject_guard [of "QgsPoint 181 0" wgs84 1000 0]
  by (simp add: QgsPoint_def)

subsection \<open>C4: the polar correction of the ellipsoidal area\<close>

text \<open>
  C4: with an ellipsoid, for every list of vertices, \<^verbatim>\<open>computePolygonArea\<close> returns,
  and its value is got from the accumulated edge sum \<open>s\<close> in this order: \<open>|s * AE|\<close>;
  clamped to \<open>E\<close> when larger than \<open>E\<close>; and replaced by \<open>E\<close> minus itself when the
  clamped value is larger than \<open>E / 2\<close>.
\<close>

theorem computePolygonArea_polar_correction:
  assumes "reachable cat dts d" and "willUseEllipsoid d"
  shows "\<exists>s. edge_sum d points = Some s \<and>
           computePolygonArea d points =
             Some (let area = \<bar>s * m_AE d\<bar>;
                       clamped = (if area > m_E d then m_E d else area)
                   in if clamped > m_E d / 2 then m_E d - clamped else clamped)"
  using assms reachable_consts [OF assms] by (intro computePolygonArea_ellipsoidal) simp_all

text \<open>
  On the unit sphere (\<open>E = 4\<pi>\<close>) the quadrilateral along the parallel of 45 degrees
  south has the edge sum \<open>2\<pi> + \<pi>\<surd>2\<close>, more than \<open>E / 2\<close>: the area returned is that of
  the cap around the south pole, \<open>2\<pi> - \<pi>\<surd>2\<close>.
\<close>

theorem computePolygonArea_polar_correction_witness:
  "reachable sphere_catalogue print_nothing unit_sphere \<and> willUseEllipsoid unit_sphere \<and>
   computePolygonArea unit_sphere
     [QgsPoint 0 (- 45), QgsPoint 90 (- 45), QgsPoint 180 (- 45), QgsPoint (- 90) (- 45)]
   = Some (2 * pi - pi * sqrt 2)"
proof -
  have lt: "sqrt 2 < 2"
    by (rule real_less_lsqrt) simp_all
  have gt: "0 < sqrt 2"
    by simp
  from computePolygonArea_polar_correction [OF unit_sphere_reachable unit_sphere_ellipsoid,
      of "[QgsPoint 0 (- 45), QgsPoint 90 (- 45), QgsPoint 180 (- 45), QgsPoint (- 90) (- 45)]"]
  have "computePolygonArea unit_sphere
     [QgsPoint 0 (- 45), QgsPoint 90 (- 45), QgsPoint 180 (- 45), QgsPoint (- 90) (- 45)]
     = Some (let area = \<bar>(2 * pi + pi * sqrt 2) * 1\<bar>;
                 clamped = (if area > 4 * pi then 4 * pi else area)
             in if clamped > 4 * pi / 2 then 4 * pi - clamped else clamped)"
    by (simp add: south_edge_sum unit_sphere_fields)
  moreover have "\<bar>(2 * pi + pi * sqrt 2) * 1\<bar> = 2 * pi + pi * sqrt 2"
    using pi_gt_zero gt by simp
  moreover have "\<not> 2 * pi + pi * sqrt 2 > 4 * pi"
    using pi_gt_zero lt by (simp add: algebra_simps)
  moreover have "2 * pi + pi * sqrt 2 > 4 * pi / 2"
    using pi_gt_zero gt by simp
  ultimately show ?thesis
    using unit_sphere_reachable unit_sphere_ellipsoid by (simp add: Let_def)
qed

subsection \<open>C5: the ellipsoidal area is not negative\<close>




subsection \<open>C6: the unwrap step\<close>

text \<open>
  Claim C6 says that after the unwrap step \<open>dx = x2 - x1\<close> lies in the half-open interval
  \<open>(-\<pi>, \<pi>]\<close>. Both loops test with \<^verbatim>\<open>> M_PI\<close>, so a difference of exactly \<open>\<pi>\<close> is left
  alone on either side: from the longitude 180 to the longitude 0 the step changes
  nothing and \<open>dx = -\<pi>\<close>.
\<close>

theorem unwrap_half_open_counterexample:
  "unwrap (m_TwoPI unit_sphere) (DEG2RAD 180) (DEG2RAD 0) = Some (pi, 0)
   \<and> \<not> (- pi < 0 - pi \<and> 0 - pi \<le> pi)"
proof -
  have "unwrap (pi + pi) pi 0 = Some (pi, 0)"
    by (rule unwrap_near) simp
  then show ?thesis
    by (simp add: unit_sphere_fields DEG2RAD_def)
qed

text \<open>
  C6, amended: with an ellipsoid, for all longitudes \<open>x1, x2\<close> the unwrap step returns and
  leaves \<open>dx = x2 - x1\<close> in the closed interval \<open>[-\<pi>, \<pi>]\<close>.
\<close>

theorem unwrap_closed_interval:
  assumes "reachable cat dts d" and "willUseEllipsoid d"
  shows "\<exists>x1' x2'. unwrap (m_TwoPI d) x1 x2 = Some (x1', x2')
           \<and> - pi \<le> x2' - x1' \<and> x2' - x1' \<le> pi"
  using reachable_consts [OF assms] unwrap_twoPI [of x1 x2] by simp

text \<open>From the longitude -135 to the longitude 135: \<open>2\<pi>\<close> is added to \<open>x1\<close>, \<open>dx = -\<pi>/2\<close>.\<close>

theorem unwrap_closed_interval_witness:
  "reachable sphere_catalogue print_nothing unit_sphere \<and> willUseEllipsoid unit_sphere \<and>
   unwrap (m_TwoPI unit_sphere) (DEG2RAD (- 135)) (DEG2RAD 135) = Some (DEG2RAD 225, DEG2RAD 135)
   \<and> DEG2RAD 135 - DEG2RAD 225 = - (pi / 2)"
proof -
  from unwrap_closed_interval [OF unit_sphere_reachable unit_sphere_ellipsoid,
      of "DEG2RAD (- 135)" "DEG2RAD 135"]
  obtain u v where "unwrap (m_TwoPI unit_sphere) (DEG2RAD (- 135)) (DEG2RAD 135) = Some (u, v)"
    by blast
  have far: "DEG2RAD 135 - DEG2RAD (- 135) > pi"
    by (simp add: DEG2RAD_def)
  have near: "DEG2RAD 135 - (DEG2RAD (- 135) + (pi + pi)) \<le> pi"
    using pi_gt_zero unfolding DEG2RAD_def by linarith
  have "unwrap (pi + pi) (DEG2RAD (- 135)) (DEG2RAD 135)
          = Some (DEG2RAD (- 135) + (pi + pi), DEG2RAD 135)"
    using far near by (rule unwrap_once_x1)
  moreover have "DEG2RAD (- 135) + (pi + pi) = DEG2RAD 225"
    by (simp add: DEG2RAD_def)
  moreover have "DEG2RAD 135 - DEG2RAD 225 = - (pi / 2)"
    by (simp add: DEG2RAD_def)
  ultimately show ?thesis
    using unit_sphere_reachable unit_sphere_ellipsoid by (simp add: unit_sphere_fields)
qed

subsection \<open>C7: the planar area\<close>

text \<open>
  C7: without an ellipsoid, \<^verbatim>\<open>computePolygonArea\<close> of a non-empty list of \<open>n\<close>
  vertices returns half the absolute value of the sum of
  \<open>x\<^sub>i * y\<^sub>i\<^sub>+\<^sub>1 - x\<^sub>i\<^sub>+\<^sub>1 * y\<^sub>i\<close> over \<open>i < n\<close>, the index \<open>i + 1\<close> taken modulo \<open>n\<close>.
\<close>

theorem computePolygonArea_planar_shoelace:
  assumes "\<not> willUseEllipsoid d" and "points \<noteq> []"
  shows "computePolygonArea d points =
    Some (1 / 2 * \<bar>\<Sum>i<length points.
                     mX (points ! i) * mY (points ! ((i + 1) mod length points))
                     - mX (points ! ((i + 1) mod length points)) * mY (points ! i)\<bar>)"
proof -
  let ?g = "\<lambda>i. mX (points ! i) * mY (points ! ((i + 1) mod length points))
                - mX (points ! ((i + 1) mod length points)) * mY (points ! i)"
  have "fold (\<lambda>i area. area + mX (points ! i) * mY (points ! ((i + 1) mod length points))
                           - mX (points ! ((i + 1) mod length points)) * mY (points ! i))
          [0 ..< length points] 0
        = fold (\<lambda>i a. a + ?g i) [0 ..< length points] 0"
    by (simp add: algebra_simps)
  also have "\<dots> = (\<Sum>i<length points. ?g i)"
    by (simp add: fold_add_sum)
  finally show ?thesis using assms
    by (simp add: computePolygonArea_def computePolygonFlatArea_def Let_def)
qed

text \<open>The triangle \<open>(0,0), (1,0), (0,1)\<close> on a new object has the area \<open>1/2\<close>.\<close>

theorem computePolygonArea_planar_shoelace_witness:
  "\<not> willUseEllipsoid (constructed zeroed)
   \<and> [QgsPoint 0 0, QgsPoint 1 0, QgsPoint 0 1] \<noteq> []
   \<and> computePolygonArea (constructed zeroed) [QgsPoint 0 0, QgsPoint 1 0, QgsPoint 0 1]
       = Some (1 / 2)"
proof -
  have w: "\<not> willUseEllipsoid (constructed zeroed)"
    by (simp add: willUseEllipsoid_def constructed_def)
  have ne: "[QgsPoint 0 0, QgsPoint 1 0, QgsPoint 0 1] \<noteq> []"
    by simp
  have three: "{..<3::nat} = {0, 1, 2}"
    by auto
  show ?thesis
    using w computePolygonArea_planar_shoelace [OF w ne]
    by (simp add: three QgsPoint_def)
qed

subsection \<open>C8: the fraction along the line at the antimeridian\<close>




subsection \<open>C9: the projected line in Cartesian coordinates\<close>

text \<open>
  C9: in the Cartesian branch of \<^verbatim>\<open>measureLineProjected\<close> (the source CRS is not
  geographic, or there is no ellipsoid), when the map units of the source CRS are not
  metres, the returned length is the distance from \<open>p1\<close> to the default point
  \<open>(0, 0)\<close>, whatever the distance and the azimuth: it is computed before \<^verbatim>\<open>p2\<close> is
  assigned.
\<close>

theorem measureLineProjected_cartesian_units:
  assumes "\<not> (isGeographic (sourceCrs d) \<and> willUseEllipsoid d)"
    and "mapUnits (sourceCrs d) \<noteq> DistanceMeters"
  shows "fst (measureLineProjected fromUnitToUnitFactor project d p1 dst azimuth)
         = distance p1 (QgsPoint 0 0)"
  using assms by (auto simp add: measureLineProjected_def Let_def QgsPointXY_default_def)

text \<open>
  In feet, from \<open>(3, 4)\<close>, ten metres to the north with three units to the metre: the
  returned length is \<open>5\<close>, the distance of \<open>(3, 4)\<close> from the origin, while the
  projected point is \<open>(3, 34)\<close>.
\<close>

theorem measureLineProjected_cartesian_units_witness:
  "\<not> (isGeographic (sourceCrs (setSourceCrs \<lparr>isGeographic = False, mapUnits = DistanceFeet\<rparr>
          (constructed zeroed)))
       \<and> willUseEllipsoid (setSourceCrs \<lparr>isGeographic = False, mapUnits = DistanceFeet\<rparr>
          (constructed zeroed)))
   \<and> mapUnits (sourceCrs (setSourceCrs \<lparr>isGeographic = False, mapUnits = DistanceFeet\<rparr>
          (constructed zeroed))) \<noteq> DistanceMeters
   \<and> measureLineProjected (\<lambda>u v. 3) (\<lambda>p l az. QgsPoint (mX p) (mY p + l))
        (setSourceCrs \<lparr>isGeographic = False, mapUnits = DistanceFeet\<rparr> (constructed zeroed))
        (QgsPoint 3 4) 10 0
       = (5, QgsPoint 3 34)"
proof -
  let ?d = "setSourceCrs \<lparr>isGeographic = False, mapUnits = DistanceFeet\<rparr> (constructed zeroed)"
  have g: "\<not> (isGeographic (sourceCrs ?d) \<and> willUseEllipsoid ?d)"
    by (simp add: setSourceCrs_def)
  have u: "mapUnits (sourceCrs ?d) \<noteq> DistanceMeters"
    by (simp add: setSourceCrs_def)
  have five: "distance (QgsPoint 3 4) (QgsPoint 0 0) = 5"
    by (simp add: distance_def QgsPoint_def real_sqrt_unique)
  have p: "snd (measureLineProjected (\<lambda>u v. 3) (\<lambda>p l az. QgsPoint (mX p) (mY p + l)) ?d
             (QgsPoint 3 4) 10 0) = QgsPoint 3 34"
    by (simp add: measureLineProjected_def Let_def QgsPoint_def setSourceCrs_def)
  show ?thesis
    using g u p five
      measureLineProjected_cartesian_units [OF g u, of "\<lambda>u v. 3"
        "\<lambda>p l az. QgsPoint (mX p) (mY p + l)" "QgsPoint 3 4" 10 0]
    by (simp add: prod_eq_iff)
qed

subsection \<open>C10: lines of fewer than two points\<close>

text \<open>
  C10: for a vector of fewer than two points \<^verbatim>\<open>measureLine\<close> returns \<open>0\<close>, with or
  without an ellipsoid, and has asked for no coordinate transformation: the list of
  the calls of \<open>transform\<close> is empty.
\<close>

theorem measureLine_fewer_than_two_points:
  assumes "length points < 2"
  shows "measureLine transform d points = (0, [])"
  using assms by (simp add: measureLine_def)

text \<open>A single point, an ellipsoid, and a transformation that would throw.\<close>

theorem measureLine_fewer_than_two_points_witness:
  "length [QgsPoint 10 20] < 2 \<and> willUseEllipsoid wgs84
   \<and> measureLine (\<lambda>p. None) wgs84 [QgsPoint 10 20] = (0, [])"
proof -
  have l: "length [QgsPoint 10 20] < 2"
    by simp
  show ?thesis
    using l wgs84_ellipsoid
      measureLine_fewer_than_two_points [OF l, of "\<lambda>p. None" wgs84]
    by simp
qed

end
